theory Spec2Isabelle
  imports Main "HOL-Library.Word"
begin

section \<open>Solidity value types\<close>

text \<open>
  The contract \<^verbatim>\<open>MaskedAttendance\<close> (Solidity 0.8.24) works on 160-bit addresses and
  256-bit unsigned integers. Comparison on words is unsigned. Solidity 0.8 checks
  \<^verbatim>\<open>+\<close>, \<^verbatim>\<open>-\<close> and \<^verbatim>\<open>++\<close>: where the source does arithmetic on a
  \<^verbatim>\<open>uint256\<close>, the model returns \<open>Panic\<close> when the operation would leave the range.
\<close>

type_synonym address = "160 word"
type_synonym uint256 = "256 word"
type_synonym bytes32 = "256 word"
type_synonym bytes = "8 word list"

datatype error = Revert string | Panic | InvalidInputProof

section \<open>The FHE library in plaintext terms\<close>

text \<open>
  The contract imports the FHE library (\<^verbatim>\<open>@fhevm/solidity/lib/FHE.sol\<close>), which is not part
  of the repository. An encrypted value is a handle: either the uninitialized handle (the
  zero value of a storage slot never written) or a ciphertext, described here by the
  plaintext it encrypts and the set of addresses authorized on it. Every library operation
  yields a fresh handle nobody is authorized on yet.
\<close>

datatype 'a handle = Uninitialized | Ciphertext 'a "address set"

type_synonym euint8 = "8 word handle"
type_synonym euint32 = "32 word handle"
type_synonym ebool = "bool handle"

text \<open>The plaintext behind a handle; the library reads an uninitialized operand as zero.\<close>

fun plainOf :: "'a::zero handle \<Rightarrow> 'a" where
  "plainOf Uninitialized = 0"
| "plainOf (Ciphertext v acl) = v"

fun plainBool :: "ebool \<Rightarrow> bool" where
  "plainBool Uninitialized = False"
| "plainBool (Ciphertext b acl) = b"

text \<open>
  What a transaction sees of its surroundings: the caller, the block time, the contract's
  own address, and the two services of the FHE runtime the contract calls. The runtime's
  input verifier and its randomness source are parameters: \<open>verifyInput e h p\<close> is the
  plaintext behind the external handle \<open>h\<close> when proof \<open>p\<close> validates it, and \<open>None\<close>
  when the proof is rejected; \<open>randomness e\<close> is the 8-bit value the runtime draws in
  this transaction.
\<close>

record env =
  msg_sender :: address
  block_timestamp :: uint256
  address_this :: address
  verifyInput :: "bytes32 \<Rightarrow> bytes \<Rightarrow> 8 word option"
  randomness :: "8 word"

text \<open>Modelled from the spec: \<^verbatim>\<open>FHE.asEuint8\<close>, the trivial encryption of a plaintext
  (the library is absent; the spec speaks of a "zero ciphertext" and of encrypted constants).\<close>

definition FHE_asEuint8 :: "8 word \<Rightarrow> euint8" where
  "FHE_asEuint8 v = Ciphertext v {}"

text \<open>Modelled from the spec: \<^verbatim>\<open>FHE.asEuint32\<close> on a plaintext, the trivial encryption
  ("initializing the caller's encrypted score to an authorized zero ciphertext").\<close>

definition FHE_asEuint32 :: "32 word \<Rightarrow> euint32" where
  "FHE_asEuint32 v = Ciphertext v {}"

text \<open>Modelled from the spec: \<^verbatim>\<open>FHE.asEuint32\<close> on an \<^verbatim>\<open>euint8\<close>, the widening cast
  ("adds it (after widening) to the student's encrypted score").\<close>

definition FHE_asEuint32_of_euint8 :: "euint8 \<Rightarrow> euint32" where
  "FHE_asEuint32_of_euint8 h = Ciphertext (ucast (plainOf h)) {}"

text \<open>Modelled from the spec: \<^verbatim>\<open>FHE.eq\<close>, an encrypted boolean
  ("is this submission == present(1)").\<close>

definition FHE_eq :: "euint8 \<Rightarrow> euint8 \<Rightarrow> ebool" where
  "FHE_eq a b = Ciphertext (plainOf a = plainOf b) {}"

text \<open>Modelled from the spec: \<^verbatim>\<open>FHE.gt\<close>
  ("homomorphically computes score(a) > score(b) as an encrypted boolean").\<close>

definition FHE_gt :: "euint32 \<Rightarrow> euint32 \<Rightarrow> ebool" where
  "FHE_gt a b = Ciphertext (plainOf b < plainOf a) {}"

text \<open>Modelled from the spec: \<^verbatim>\<open>FHE.select\<close> ("chooses between two encrypted values
  based on an encrypted boolean without revealing which was chosen").\<close>

definition FHE_select :: "ebool \<Rightarrow> euint32 \<Rightarrow> euint32 \<Rightarrow> euint32" where
  "FHE_select c a b = Ciphertext (if plainBool c then plainOf a else plainOf b) {}"

text \<open>Modelled from the spec: \<^verbatim>\<open>FHE.add\<close> on \<^verbatim>\<open>euint32\<close> ("add it to the course's
  encrypted total"). Encrypted addition is unchecked: it is addition of 32-bit words,
  modulo \<open>2 ^ 32\<close>.\<close>

definition FHE_add :: "euint32 \<Rightarrow> euint32 \<Rightarrow> euint32" where
  "FHE_add a b = Ciphertext (plainOf a + plainOf b) {}"

text \<open>Modelled from the spec: \<^verbatim>\<open>FHE.allow\<close> ("grant decrypt-authorization on this handle":
  capability bookkeeping, not a value change).\<close>

fun FHE_allow :: "'a handle \<Rightarrow> address \<Rightarrow> 'a handle" where
  "FHE_allow Uninitialized a = Uninitialized"
| "FHE_allow (Ciphertext v acl) a = Ciphertext v (insert a acl)"

text \<open>Modelled from the spec: \<^verbatim>\<open>FHE.allowThis\<close>, the grant "to the contract itself".\<close>

definition FHE_allowThis :: "env \<Rightarrow> 'a handle \<Rightarrow> 'a handle" where
  "FHE_allowThis e h = FHE_allow h (address_this e)"

text \<open>Modelled from the spec: \<^verbatim>\<open>FHE.fromExternal\<close> ("validate and import the externally
  supplied ciphertext+proof into an internal ciphertext handle; invalid proof: revert").\<close>

definition FHE_fromExternal :: "env \<Rightarrow> bytes32 \<Rightarrow> bytes \<Rightarrow> error + euint8" where
  "FHE_fromExternal e encryptedInput inputProof =
     (case verifyInput e encryptedInput inputProof of
        None \<Rightarrow> Inl InvalidInputProof
      | Some v \<Rightarrow> Inr (Ciphertext v {}))"

text \<open>Modelled from the spec: \<^verbatim>\<open>FHE.randEuint8\<close> ("draws an encrypted random 8-bit value
  from the runtime's secure randomness source").\<close>

definition FHE_randEuint8 :: "env \<Rightarrow> euint8" where
  "FHE_randEuint8 e = Ciphertext (randomness e) {}"

section \<open>Contract storage\<close>

record Course =
  courseId :: uint256
  name :: string
  teacher :: address
  startTime :: uint256
  endTime :: uint256
  isActive :: bool
  isFinalized :: bool

text \<open>A Solidity mapping is total: a key never written reads as the zero value.\<close>

record state =
  nextCourseId :: uint256
  admin :: address
  courses :: "uint256 \<Rightarrow> Course"
  isTeacher :: "address \<Rightarrow> bool"
  isStudent :: "address \<Rightarrow> bool"
  encryptedAttendance :: "uint256 \<Rightarrow> address \<Rightarrow> euint8"
  encryptedTotalAttendance :: "uint256 \<Rightarrow> euint32"
  encryptedStudentScore :: "address \<Rightarrow> euint32"

definition zeroCourse :: Course where
  "zeroCourse = \<lparr>courseId = 0, name = [], teacher = 0, startTime = 0, endTime = 0,
     isActive = False, isFinalized = False\<rparr>"

section \<open>Modifiers and constructor\<close>

text \<open>A modifier either lets the call through (\<open>None\<close>) or reverts it.\<close>

definition onlyAdmin :: "env \<Rightarrow> state \<Rightarrow> error option" where
  "onlyAdmin e s = (if msg_sender e = admin s then None else Some (Revert ''Only admin''))"

definition onlyTeacher :: "env \<Rightarrow> state \<Rightarrow> error option" where
  "onlyTeacher e s = (if isTeacher s (msg_sender e) then None else Some (Revert ''Only teacher''))"

definition onlyStudent :: "env \<Rightarrow> state \<Rightarrow> error option" where
  "onlyStudent e s = (if isStudent s (msg_sender e) then None else Some (Revert ''Only student''))"

definition courseExists :: "uint256 \<Rightarrow> state \<Rightarrow> error option" where
  "courseExists cid s =
     (if \<not> (0 < cid \<and> cid < nextCourseId s) then Some (Revert ''Course does not exist'')
      else if \<not> (courseId (courses s cid) = cid) then Some (Revert ''Course not initialized'')
      else None)"

definition constructor :: "env \<Rightarrow> state" where
  "constructor e =
     \<lparr>nextCourseId = 1, admin = msg_sender e, courses = (\<lambda>_. zeroCourse),
      isTeacher = (\<lambda>_. False), isStudent = (\<lambda>_. False),
      encryptedAttendance = (\<lambda>_ _. Uninitialized),
      encryptedTotalAttendance = (\<lambda>_. Uninitialized),
      encryptedStudentScore = (\<lambda>_. Uninitialized)\<rparr>"

section \<open>Registration\<close>

definition registerTeacher :: "env \<Rightarrow> address \<Rightarrow> state \<Rightarrow> error + state" where
  "registerTeacher e t s =
     (case onlyAdmin e s of Some err \<Rightarrow> Inl err | None \<Rightarrow>
        Inr (s\<lparr>isTeacher := (isTeacher s)(t := True)\<rparr>))"

definition registerStudent :: "env \<Rightarrow> address \<Rightarrow> state \<Rightarrow> error + state" where
  "registerStudent e student s =
     (case onlyAdmin e s of Some err \<Rightarrow> Inl err | None \<Rightarrow>
        Inr (s\<lparr>isStudent := (isStudent s)(student := True)\<rparr>))"

definition selfRegister :: "env \<Rightarrow> state \<Rightarrow> error + state" where
  "selfRegister e s =
     (if \<not> (\<not> isTeacher s (msg_sender e)) then
        Inl (Revert ''Teachers cannot self-register as students'')
      else if \<not> (\<not> isStudent s (msg_sender e)) then
        Inl (Revert ''Already registered as student'')
      else
        let s1 = s\<lparr>isStudent := (isStudent s)(msg_sender e := True)\<rparr>;
            score = FHE_asEuint32 0;
            score = FHE_allowThis e score;
            score = FHE_allow score (msg_sender e)
        in Inr (s1\<lparr>encryptedStudentScore :=
                   (encryptedStudentScore s1)(msg_sender e := score)\<rparr>))"

section \<open>Course lifecycle\<close>

text \<open>
  \<^verbatim>\<open>createCourse\<close> checks the start time first and the end time second. The subtraction
  \<^verbatim>\<open>block.timestamp - 300\<close> and the increment \<^verbatim>\<open>nextCourseId++\<close> are checked arithmetic.
  The call returns the new state and the id it assigned.
\<close>

definition createCourse ::
  "env \<Rightarrow> string \<Rightarrow> uint256 \<Rightarrow> uint256 \<Rightarrow> state \<Rightarrow> error + (state \<times> uint256)" where
  "createCourse e courseName start finish s =
     (case onlyTeacher e s of Some err \<Rightarrow> Inl err | None \<Rightarrow>
      if block_timestamp e < 300 then Inl Panic
      else if \<not> (block_timestamp e - 300 < start) then
        Inl (Revert ''Start time must not be too far in the past'')
      else if \<not> (start < finish) then Inl (Revert ''End time must be after start'')
      else if nextCourseId s = - 1 then Inl Panic
      else
        let cid = nextCourseId s;
            s1 = s\<lparr>nextCourseId := cid + 1\<rparr>;
            s2 = s1\<lparr>courses := (courses s1)(cid :=
                   \<lparr>courseId = cid, name = courseName, teacher = msg_sender e,
                    startTime = start, endTime = finish,
                    isActive = True, isFinalized = False\<rparr>)\<rparr>;
            total = FHE_asEuint32 0;
            total = FHE_allowThis e total;
            total = FHE_allow total (msg_sender e)
        in Inr (s2\<lparr>encryptedTotalAttendance :=
                   (encryptedTotalAttendance s2)(cid := total)\<rparr>, cid))"

definition finalizeCourse :: "env \<Rightarrow> uint256 \<Rightarrow> state \<Rightarrow> error + state" where
  "finalizeCourse e cid s =
     (case onlyTeacher e s of Some err \<Rightarrow> Inl err | None \<Rightarrow>
      if \<not> (courseId (courses s cid) \<noteq> 0) then Inl (Revert ''Course does not exist'')
      else if \<not> (teacher (courses s cid) = msg_sender e) then
        Inl (Revert ''Only course teacher can finalize'')
      else if \<not> (\<not> isFinalized (courses s cid)) then Inl (Revert ''Course already finalized'')
      else
        Inr (s\<lparr>courses := (courses s)(cid :=
               (courses s cid)\<lparr>isFinalized := True, isActive := False\<rparr>)\<rparr>))"

definition toggleCourseStatus :: "env \<Rightarrow> uint256 \<Rightarrow> state \<Rightarrow> error + state" where
  "toggleCourseStatus e cid s =
     (case onlyTeacher e s of Some err \<Rightarrow> Inl err | None \<Rightarrow>
      if \<not> (courseId (courses s cid) \<noteq> 0) then Inl (Revert ''Course does not exist'')
      else if \<not> (teacher (courses s cid) = msg_sender e) then
        Inl (Revert ''Only course teacher can modify'')
      else if \<not> (\<not> isFinalized (courses s cid)) then
        Inl (Revert ''Cannot modify finalized course'')
      else
        Inr (s\<lparr>courses := (courses s)(cid :=
               (courses s cid)\<lparr>isActive := \<not> isActive (courses s cid)\<rparr>)\<rparr>))"

section \<open>Encrypted check-in\<close>

text \<open>
  The statements of \<^verbatim>\<open>checkIn\<close> in the order of the source: the two modifiers, the three
  \<^verbatim>\<open>require\<close>s, the import of the external ciphertext, the store into the attendance
  cell with its grants, then the two homomorphic additions and their grants.
\<close>

definition checkIn :: "env \<Rightarrow> uint256 \<Rightarrow> bytes32 \<Rightarrow> bytes \<Rightarrow> state \<Rightarrow> error + state" where
  "checkIn e cid encryptedStatus inputProof s =
     (case onlyStudent e s of
        Some err \<Rightarrow> Inl err
      | None \<Rightarrow>
         (case courseExists cid s of
            Some err \<Rightarrow> Inl err
          | None \<Rightarrow>
             (if \<not> (startTime (courses s cid) \<le> block_timestamp e) then
                Inl (Revert ''Course not started'')
              else if \<not> (block_timestamp e \<le> endTime (courses s cid)) then
                Inl (Revert ''Course already ended'')
              else if \<not> (\<not> isFinalized (courses s cid)) then
                Inl (Revert ''Course finalized'')
              else
               (case FHE_fromExternal e encryptedStatus inputProof of
                  Inl err \<Rightarrow> Inl err
                | Inr imported \<Rightarrow>
                   (let status = FHE_allowThis e imported;
                        status = FHE_allow status (msg_sender e);
                        cell = FHE_allowThis e status;
                        cell = FHE_allow cell (msg_sender e);
                        cell = FHE_allow cell (teacher (courses s cid));
                        s1 = s\<lparr>encryptedAttendance := (encryptedAttendance s)(cid :=
                               (encryptedAttendance s cid)(msg_sender e := cell))\<rparr>;
                        isAttending = FHE_eq status (FHE_asEuint8 1);
                        total = FHE_add (encryptedTotalAttendance s1 cid)
                                  (FHE_select isAttending (FHE_asEuint32 1) (FHE_asEuint32 0));
                        s2 = s1\<lparr>encryptedTotalAttendance :=
                               (encryptedTotalAttendance s1)(cid := total)\<rparr>;
                        scoreToAdd =
                          FHE_select isAttending (FHE_asEuint32 10) (FHE_asEuint32 0);
                        score = FHE_add (encryptedStudentScore s2 (msg_sender e)) scoreToAdd;
                        s3 = s2\<lparr>encryptedStudentScore :=
                               (encryptedStudentScore s2)(msg_sender e := score)\<rparr>;
                        total = FHE_allowThis e (encryptedTotalAttendance s3 cid);
                        total = FHE_allow total (msg_sender e);
                        total = FHE_allow total (teacher (courses s3 cid));
                        s4 = s3\<lparr>encryptedTotalAttendance :=
                               (encryptedTotalAttendance s3)(cid := total)\<rparr>;
                        score = FHE_allowThis e (encryptedStudentScore s4 (msg_sender e));
                        score = FHE_allow score (msg_sender e)
                    in Inr (s4\<lparr>encryptedStudentScore :=
                               (encryptedStudentScore s4)(msg_sender e := score)\<rparr>))))))"

section \<open>Bonus and comparison\<close>

definition generateRandomBonus :: "env \<Rightarrow> address \<Rightarrow> state \<Rightarrow> error + state" where
  "generateRandomBonus e student s =
     (case onlyTeacher e s of Some err \<Rightarrow> Inl err | None \<Rightarrow>
        let randomBonus = FHE_randEuint8 e;
            score = FHE_add (encryptedStudentScore s student)
                      (FHE_asEuint32_of_euint8 randomBonus);
            score = FHE_allowThis e score;
            score = FHE_allow score student
        in Inr (s\<lparr>encryptedStudentScore := (encryptedStudentScore s)(student := score)\<rparr>))"

text \<open>\<^verbatim>\<open>compareStudentScores\<close> writes no storage; it returns the handle of the result.\<close>

definition compareStudentScores :: "env \<Rightarrow> address \<Rightarrow> address \<Rightarrow> state \<Rightarrow> error + ebool" where
  "compareStudentScores e student1 student2 s =
     (if \<not> (msg_sender e = admin s) then Inl (Revert ''Only admin can compare'')
      else
        let result = FHE_gt (encryptedStudentScore s student1) (encryptedStudentScore s student2);
            result = FHE_allowThis e result;
            result = FHE_allow result (admin s)
        in Inr result)"

section \<open>Reads\<close>

definition getStudentAttendance :: "env \<Rightarrow> uint256 \<Rightarrow> address \<Rightarrow> state \<Rightarrow> error + euint8" where
  "getStudentAttendance e cid student s =
     (case courseExists cid s of Some err \<Rightarrow> Inl err | None \<Rightarrow>
      if \<not> (msg_sender e = student \<or> msg_sender e = teacher (courses s cid)
             \<or> msg_sender e = admin s)
      then Inl (Revert ''Not authorized'')
      else Inr (encryptedAttendance s cid student))"

definition getCourseAttendance :: "env \<Rightarrow> uint256 \<Rightarrow> state \<Rightarrow> error + euint32" where
  "getCourseAttendance e cid s =
     (case courseExists cid s of Some err \<Rightarrow> Inl err | None \<Rightarrow>
      if \<not> (msg_sender e = teacher (courses s cid) \<or> msg_sender e = admin s)
      then Inl (Revert ''Not authorized'')
      else Inr (encryptedTotalAttendance s cid))"

definition getStudentScore :: "env \<Rightarrow> address \<Rightarrow> state \<Rightarrow> error + euint32" where
  "getStudentScore e student s =
     (if \<not> (msg_sender e = student \<or> msg_sender e = admin s)
      then Inl (Revert ''Not authorized'')
      else Inr (encryptedStudentScore s student))"

definition getCourseInfo ::
  "uint256 \<Rightarrow> state \<Rightarrow> error + (string \<times> address \<times> uint256 \<times> uint256 \<times> bool)" where
  "getCourseInfo cid s =
     (case courseExists cid s of Some err \<Rightarrow> Inl err | None \<Rightarrow>
        let course = courses s cid
        in Inr (name course, teacher course, startTime course, endTime course,
                isFinalized course))"

text \<open>The eight values \<^verbatim>\<open>getCourseDebugInfo\<close> returns, in the order of the source; the
  last one is \<^verbatim>\<open>canCheckIn\<close>.\<close>

definition getCourseDebugInfo ::
  "env \<Rightarrow> uint256 \<Rightarrow> state \<Rightarrow>
     error + (string \<times> address \<times> uint256 \<times> uint256 \<times> bool \<times> bool \<times> uint256 \<times> bool)" where
  "getCourseDebugInfo e cid s =
     (case courseExists cid s of Some err \<Rightarrow> Inl err | None \<Rightarrow>
        let course = courses s cid;
            currentTime = block_timestamp e;
            canCheckIn = (startTime course \<le> currentTime \<and> currentTime \<le> endTime course
                          \<and> \<not> isFinalized course \<and> isActive course)
        in Inr (name course, teacher course, startTime course, endTime course,
                isActive course, isFinalized course, currentTime, canCheckIn))"

definition hasStudentCheckedIn :: "uint256 \<Rightarrow> address \<Rightarrow> state \<Rightarrow> error + bool" where
  "hasStudentCheckedIn cid student s =
     (case courseExists cid s of Some err \<Rightarrow> Inl err | None \<Rightarrow> Inr True)"

section \<open>Transactions\<close>

text \<open>
  The state-changing entry points of the contract, one constructor per external function
  that is not a \<^verbatim>\<open>view\<close>. A transaction that reverts leaves the state as it was; one that
  succeeds yields the next state. Events are write-only and are left out.
\<close>

datatype call =
    RegisterTeacher address
  | RegisterStudent address
  | SelfRegister
  | CreateCourse string uint256 uint256
  | CheckIn uint256 bytes32 bytes
  | GenerateRandomBonus address
  | FinalizeCourse uint256
  | ToggleCourseStatus uint256
  | CompareStudentScores address address

fun exec :: "env \<Rightarrow> call \<Rightarrow> state \<Rightarrow> error + state" where
  "exec e (RegisterTeacher t) s = registerTeacher e t s"
| "exec e (RegisterStudent a) s = registerStudent e a s"
| "exec e SelfRegister s = selfRegister e s"
| "exec e (CreateCourse n st en) s =
     (case createCourse e n st en s of Inl err \<Rightarrow> Inl err | Inr (s', cid) \<Rightarrow> Inr s')"
| "exec e (CheckIn cid h p) s = checkIn e cid h p s"
| "exec e (GenerateRandomBonus a) s = generateRandomBonus e a s"
| "exec e (FinalizeCourse cid) s = finalizeCourse e cid s"
| "exec e (ToggleCourseStatus cid) s = toggleCourseStatus e cid s"
| "exec e (CompareStudentScores a b) s =
     (case compareStudentScores e a b s of Inl err \<Rightarrow> Inl err | Inr r \<Rightarrow> Inr s)"

text \<open>A sequence of successful transactions; it stops at the first one that reverts.\<close>

fun run :: "state \<Rightarrow> (env \<times> call) list \<Rightarrow> error + state" where
  "run s [] = Inr s"
| "run s ((e, c) # txs) =
     (case exec e c s of Inl err \<Rightarrow> Inl err | Inr s' \<Rightarrow> run s' txs)"

text \<open>The states the deployed contract can be in: the constructor's, and every state a
  successful transaction leads to from one of them.\<close>

inductive reachable :: "state \<Rightarrow> bool" where
  deployed: "reachable (constructor e)"
| transaction: "reachable s \<Longrightarrow> exec e c s = Inr s' \<Longrightarrow> reachable s'"

section \<open>Well-formed states\<close>

text \<open>
  What every reachable state satisfies: the next id is not 0, no course is stored at or
  above the next id, a slot without a course is not finalized, and a stored course ends
  after it starts and belongs to a registered teacher.
\<close>

definition wellFormed :: "state \<Rightarrow> bool" where
  "wellFormed s \<longleftrightarrow>
     nextCourseId s \<noteq> 0 \<and>
     (\<forall>cid. nextCourseId s \<le> cid \<longrightarrow> courseId (courses s cid) = 0) \<and>
     (\<forall>cid. courseId (courses s cid) = 0 \<longrightarrow> \<not> isFinalized (courses s cid)) \<and>
     (\<forall>cid. courseId (courses s cid) \<noteq> 0 \<longrightarrow>
        startTime (courses s cid) < endTime (courses s cid) \<and>
        isTeacher s (teacher (courses s cid)))"

section \<open>Example transactions\<close>

text \<open>
  Concrete transactions for the worked examples below. The contract sits at address
  \<open>0xC0DE\<close>; the example runtime rejects an empty proof and otherwise reads the
  plaintext from the low byte of the external handle. Address 1 deploys the contract.
\<close>

definition txEnv :: "address \<Rightarrow> uint256 \<Rightarrow> env" where
  "txEnv sender now =
     \<lparr>msg_sender = sender, block_timestamp = now, address_this = 0xC0DE,
      verifyInput = (\<lambda>h p. if p = [] then None else Some (ucast h)), randomness = 7\<rparr>"

definition stateAfter :: "(env \<times> call) list \<Rightarrow> state" where
  "stateAfter txs =
     (case run (constructor (txEnv 1 1000)) txs of
        Inr s \<Rightarrow> s
      | Inl err \<Rightarrow> constructor (txEnv 1 1000))"

text \<open>The admin registers teacher 2 and student 3; the teacher creates course 1, open
  from time 1060 to time 4660.\<close>

definition setupTxs :: "(env \<times> call) list" where
  "setupTxs =
     [(txEnv 1 1000, RegisterTeacher 2),
      (txEnv 1 1000, RegisterStudent 3),
      (txEnv 2 1000, CreateCourse ''Math'' 1060 4660)]"

definition afterSetup :: state where
  "afterSetup = stateAfter setupTxs"

text \<open>The teacher finalizes course 1 at time 1010, before it starts.\<close>

definition finalizedEarly :: state where
  "finalizedEarly = stateAfter (setupTxs @ [(txEnv 2 1010, FinalizeCourse 1)])"

text \<open>The teacher finalizes course 1 at time 2000, while it is open.\<close>

definition finalizedOpen :: state where
  "finalizedOpen = stateAfter (setupTxs @ [(txEnv 2 2000, FinalizeCourse 1)])"

text \<open>The teacher deactivates course 1 at time 1010.\<close>

definition deactivated :: state where
  "deactivated = stateAfter (setupTxs @ [(txEnv 2 1010, ToggleCourseStatus 1)])"

text \<open>The admin registers address 4 both as a teacher and as a student.\<close>

definition bothRoles :: state where
  "bothRoles = stateAfter [(txEnv 1 1000, RegisterTeacher 4), (txEnv 1 1000, RegisterStudent 4)]"

text \<open>After the early finalization the admin registers a second teacher, address 5.\<close>

definition finalizedTwoTeachers :: state where
  "finalizedTwoTeachers =
     stateAfter (setupTxs @ [(txEnv 2 1010, FinalizeCourse 1), (txEnv 1 1011, RegisterTeacher 5)])"

text \<open>No course yet: the admin registers teacher 2, address 6 registers itself, and the
  teacher grants it a random bonus (7 with the example runtime).\<close>

definition scoredBeforeCourses :: state where
  "scoredBeforeCourses =
     stateAfter [(txEnv 1 1000, RegisterTeacher 2), (txEnv 6 1000, SelfRegister),
                 (txEnv 2 1000, GenerateRandomBonus 6)]"

section \<open>Auxiliary facts\<close>

lemmas op_defs = registerTeacher_def registerStudent_def selfRegister_def createCourse_def
  finalizeCourse_def toggleCourseStatus_def checkIn_def generateRandomBonus_def
  compareStudentScores_def onlyAdmin_def onlyTeacher_def onlyStudent_def courseExists_def
  FHE_fromExternal_def

lemmas fhe_defs = FHE_asEuint8_def FHE_asEuint32_def FHE_eq_def FHE_select_def FHE_add_def
  FHE_allowThis_def FHE_randEuint8_def FHE_gt_def FHE_asEuint32_of_euint8_def

lemmas eval_defs = txEnv_def stateAfter_def setupTxs_def afterSetup_def constructor_def
  zeroCourse_def op_defs fhe_defs Let_def

lemma FHE_allow_plain [simp]: "plainOf (FHE_allow h a) = plainOf h"
  by (cases h) simp_all

lemma word_succ_le_iff: "(n :: 'a::len word) \<noteq> - 1 \<Longrightarrow> n + 1 \<le> c \<longleftrightarrow> n < c"
proof -
  assume "n \<noteq> - 1"
  then have "1 + n \<noteq> 0"
    by (metis add_eq_0_iff)
  then have "unat (1 + n) = Suc (unat n)"
    by (rule unatSuc)
  then show ?thesis
    by (simp add: word_le_nat_alt word_less_nat_alt Suc_le_eq add.commute)
qed

lemma word_succ_nonzero: "(n :: 'a::len word) \<noteq> - 1 \<Longrightarrow> n + 1 \<noteq> 0"
  using eq_neg_iff_add_eq_0 [of n 1] by simp

subsection \<open>The invariant\<close>

lemma wellFormed_constructor: "wellFormed (constructor e)"
  by (simp add: wellFormed_def constructor_def zeroCourse_def)

lemma wellFormed_createCourse:
  assumes "wellFormed s" and "createCourse e n st en s = Inr (s', cid)"
  shows "wellFormed s'"
proof -
  from assms(2) have t: "isTeacher s (msg_sender e)" and lt: "st < en"
    and nomax: "nextCourseId s \<noteq> - 1" and cid: "cid = nextCourseId s"
    and nx: "nextCourseId s' = nextCourseId s + 1"
    and cs: "courses s' = (courses s)(cid :=
                   \<lparr>courseId = cid, name = n, teacher = msg_sender e,
                    startTime = st, endTime = en,
                    isActive = True, isFinalized = False\<rparr>)"
    and it: "isTeacher s' = isTeacher s"
    by (auto simp: createCourse_def onlyTeacher_def Let_def split: if_splits)
  from assms(1) show ?thesis
    unfolding wellFormed_def nx cs it cid
    using t lt nomax by (auto simp: word_succ_le_iff word_succ_nonzero)
qed

lemma wellFormed_exec:
  assumes "wellFormed s" and "exec e c s = Inr s'"
  shows "wellFormed s'"
proof (cases c)
  case (CreateCourse n st en)
  with assms show ?thesis
    by (auto split: sum.splits prod.splits dest: wellFormed_createCourse)
next
  case (CheckIn cid h p)
  with assms show ?thesis
    by (auto simp: wellFormed_def checkIn_def Let_def split: option.splits if_splits sum.splits)
qed (use assms in \<open>auto simp: wellFormed_def op_defs Let_def
       split: option.splits if_splits sum.splits\<close>)

lemma reachable_wellFormed: "reachable s \<Longrightarrow> wellFormed s"
  by (induction rule: reachable.induct) (auto intro: wellFormed_constructor wellFormed_exec)

lemma run_reachable: "reachable s \<Longrightarrow> run s txs = Inr s' \<Longrightarrow> reachable s'"
proof (induction txs arbitrary: s)
  case Nil
  then show ?case by simp
next
  case (Cons tx txs)
  obtain e c where tx: "tx = (e, c)" by (cases tx)
  with Cons.prems obtain s1 where "exec e c s = Inr s1" "run s1 txs = Inr s'"
    by (auto split: sum.splits)
  with Cons.IH Cons.prems(1) show ?case
    by (blast intro: reachable.transaction)
qed

lemma reachable_stateAfter: "reachable (stateAfter txs)"
  unfolding stateAfter_def
  by (auto split: sum.splits intro: reachable.deployed run_reachable)

subsection \<open>Facts about stored courses and about check-in\<close>

lemma reachable_course_times:
  "reachable s \<Longrightarrow> courseId (courses s cid) \<noteq> 0 \<Longrightarrow>
     startTime (courses s cid) < endTime (courses s cid)"
  by (drule reachable_wellFormed) (simp add: wellFormed_def)

lemma courseExists_stored: "courseExists cid s = None \<Longrightarrow> courseId (courses s cid) \<noteq> 0"
  by (auto simp: courseExists_def split: if_splits)

lemma checkIn_effect:
  assumes "checkIn e cid encryptedStatus inputProof s = Inr s'"
  shows "\<exists>status. verifyInput e encryptedStatus inputProof = Some status \<and>
    encryptedAttendance s' cid (msg_sender e) =
      Ciphertext status {address_this e, msg_sender e, teacher (courses s cid)} \<and>
    (status = 1 \<longrightarrow>
       plainOf (encryptedTotalAttendance s' cid) = plainOf (encryptedTotalAttendance s cid) + 1 \<and>
       plainOf (encryptedStudentScore s' (msg_sender e)) =
         plainOf (encryptedStudentScore s (msg_sender e)) + 10) \<and>
    (status \<noteq> 1 \<longrightarrow>
       plainOf (encryptedTotalAttendance s' cid) = plainOf (encryptedTotalAttendance s cid) \<and>
       plainOf (encryptedStudentScore s' (msg_sender e)) =
         plainOf (encryptedStudentScore s (msg_sender e)))"
  using assms
  by (auto simp: checkIn_def FHE_fromExternal_def Let_def fhe_defs
      split: option.splits if_splits)

lemma checkIn_frame:
  assumes "checkIn e cid encryptedStatus inputProof s = Inr s'"
  shows "isStudent s (msg_sender e) \<and> courseExists cid s = None \<and>
    \<not> isFinalized (courses s cid) \<and> courses s' = courses s \<and> isStudent s' = isStudent s \<and>
    isTeacher s' = isTeacher s \<and> nextCourseId s' = nextCourseId s \<and> admin s' = admin s"
  using assms
  by (auto simp: checkIn_def onlyStudent_def FHE_fromExternal_def Let_def
      split: option.splits if_splits)

lemma checkIn_succeeds:
  assumes "isStudent s (msg_sender e)" and "courseExists cid s = None"
    and "startTime (courses s cid) \<le> block_timestamp e"
    and "block_timestamp e \<le> endTime (courses s cid)"
    and "\<not> isFinalized (courses s cid)"
    and "verifyInput e encryptedStatus inputProof = Some status"
  shows "\<exists>s'. checkIn e cid encryptedStatus inputProof s = Inr s'"
  using assms
  by (simp add: checkIn_def onlyStudent_def FHE_fromExternal_def Let_def)


subsection \<open>What a transaction leaves untouched\<close>

lemma createCourse_result:
  assumes "createCourse e n st en s = Inr (s', cid)"
  shows "isTeacher s (msg_sender e) \<and> st < en \<and> cid = nextCourseId s \<and>
    courses s' = (courses s)(cid :=
        \<lparr>courseId = cid, name = n, teacher = msg_sender e, startTime = st, endTime = en,
         isActive = True, isFinalized = False\<rparr>) \<and>
    isTeacher s' = isTeacher s \<and> isStudent s' = isStudent s \<and> admin s' = admin s"
  using assms
  by (auto simp: createCourse_def onlyTeacher_def Let_def split: if_splits)

lemma exec_admin: "exec e c s = Inr s' \<Longrightarrow> admin s' = admin s"
  by (cases c)
    (auto simp: op_defs Let_def split: option.splits if_splits sum.splits prod.splits)

lemma exec_isTeacher: "exec e c s = Inr s' \<Longrightarrow> isTeacher s a \<Longrightarrow> isTeacher s' a"
  by (cases c)
    (auto simp: op_defs Let_def split: option.splits if_splits sum.splits prod.splits)

lemma exec_course_immutable:
  assumes "wellFormed s" and "exec e c s = Inr s'" and "courseId (courses s cid) \<noteq> 0"
  shows "courseId (courses s' cid) = courseId (courses s cid) \<and>
    name (courses s' cid) = name (courses s cid) \<and>
    teacher (courses s' cid) = teacher (courses s cid) \<and>
    startTime (courses s' cid) = startTime (courses s cid) \<and>
    endTime (courses s' cid) = endTime (courses s cid)"
proof (cases c)
  case (CreateCourse n st en)
  with assms(2) obtain new where "createCourse e n st en s = Inr (s', new)"
    by (auto split: sum.splits)
  from createCourse_result [OF this]
  have new: "new = nextCourseId s" and cs: "courses s' = (courses s)(new :=
        \<lparr>courseId = new, name = n, teacher = msg_sender e, startTime = st, endTime = en,
         isActive = True, isFinalized = False\<rparr>)"
    by simp_all
  from assms(1,3) have "cid \<noteq> nextCourseId s"
    by (auto simp: wellFormed_def)
  with new cs show ?thesis by simp
next
  case (CheckIn k h p)
  with assms(2) show ?thesis
    by (auto simp: checkIn_def Let_def split: option.splits if_splits sum.splits)
qed (use assms(2) in \<open>auto simp: op_defs Let_def split: option.splits if_splits sum.splits\<close>)

lemma exec_keeps_finalized:
  assumes "wellFormed s" and "exec e c s = Inr s'"
    and "isFinalized (courses s cid)" and "\<not> isActive (courses s cid)"
  shows "isFinalized (courses s' cid) \<and> \<not> isActive (courses s' cid)"
proof (cases c)
  case (CreateCourse n st en)
  with assms(2) obtain new where "createCourse e n st en s = Inr (s', new)"
    by (auto split: sum.splits)
  from createCourse_result [OF this]
  have new: "new = nextCourseId s" and cs: "courses s' = (courses s)(new :=
        \<lparr>courseId = new, name = n, teacher = msg_sender e, startTime = st, endTime = en,
         isActive = True, isFinalized = False\<rparr>)"
    by simp_all
  from assms(1,3) have "cid \<noteq> nextCourseId s"
    by (auto simp: wellFormed_def)
  with new cs assms(3,4) show ?thesis by simp
next
  case (CheckIn k h p)
  with assms(2-4) show ?thesis
    by (auto simp: checkIn_def Let_def split: option.splits if_splits sum.splits)
qed (use assms(2-4) in \<open>auto simp: op_defs Let_def split: option.splits if_splits sum.splits\<close>)

lemma run_keeps_finalized:
  assumes "reachable s" and "run s txs = Inr s'"
    and "isFinalized (courses s cid)" and "\<not> isActive (courses s cid)"
  shows "isFinalized (courses s' cid) \<and> \<not> isActive (courses s' cid) \<and>
    courseId (courses s' cid) = courseId (courses s cid) \<and>
    teacher (courses s' cid) = teacher (courses s cid) \<and>
    (isTeacher s a \<longrightarrow> isTeacher s' a)"
  using assms
proof (induction txs arbitrary: s)
  case Nil
  then show ?case by simp
next
  case (Cons tx txs)
  obtain e c where tx: "tx = (e, c)" by (cases tx)
  with Cons.prems(2) obtain s1 where step: "exec e c s = Inr s1" and rest: "run s1 txs = Inr s'"
    by (auto split: sum.splits)
  from Cons.prems(1) have wf: "wellFormed s" by (rule reachable_wellFormed)
  from wf Cons.prems(3) have stored: "courseId (courses s cid) \<noteq> 0"
    by (auto simp: wellFormed_def)
  from Cons.prems(1) step have r1: "reachable s1" by (rule reachable.transaction)
  from exec_keeps_finalized [OF wf step Cons.prems(3,4)]
  have f1: "isFinalized (courses s1 cid)" "\<not> isActive (courses s1 cid)" by simp_all
  from exec_course_immutable [OF wf step stored]
  have same: "courseId (courses s1 cid) = courseId (courses s cid)"
    "teacher (courses s1 cid) = teacher (courses s cid)" by simp_all
  from Cons.IH [OF r1 rest f1] same exec_isTeacher [OF step, of a] show ?case
    by simp
qed

subsection \<open>The grace window of \<^verbatim>\<open>createCourse\<close>\<close>

lemma grace_window_far_past:
  fixes now st :: uint256
  assumes "unat st + 300 < unat now"
  shows "\<not> now < 300 \<and> \<not> now - 300 < st"
proof -
  have c: "unat (300 :: uint256) = 300" by simp
  from assms have le: "(300 :: uint256) \<le> now"
    by (simp add: word_le_nat_alt c)
  then have "unat (now - 300) = unat now - 300"
    by (simp add: unat_sub c)
  with assms le show ?thesis
    by (simp add: word_less_nat_alt word_le_nat_alt c)
qed

lemma run_admin: "run s txs = Inr s' \<Longrightarrow> admin s' = admin s"
proof (induction txs arbitrary: s)
  case Nil
  then show ?case by simp
next
  case (Cons tx txs)
  obtain e c where "tx = (e, c)" by (cases tx)
  with Cons.prems obtain s1 where "exec e c s = Inr s1" "run s1 txs = Inr s'"
    by (auto split: sum.splits)
  with Cons.IH show ?case
    by (simp add: exec_admin)
qed

section \<open>Check-in\<close>

text \<open>
  Claim C1. A successful \<^verbatim>\<open>checkIn\<close> stores the submitted ciphertext in the caller's
  attendance cell of that course (readable by the contract, the student and the course's
  teacher). In plaintext terms: when the submitted status is 1 (present) the course total
  is its prior value plus 1 and the student's score its prior value plus 10; when it is 2
  (absent) both keep their value. Totals and scores are \<^verbatim>\<open>euint32\<close>: the sums are
  those of 32-bit words.
\<close>

theorem checkIn_records_status_and_adds:
  assumes "checkIn e cid encryptedStatus inputProof s = Inr s'"
  shows "\<exists>status. verifyInput e encryptedStatus inputProof = Some status \<and>
    encryptedAttendance s' cid (msg_sender e) =
      Ciphertext status {address_this e, msg_sender e, teacher (courses s cid)} \<and>
    (status = 1 \<longrightarrow>
       plainOf (encryptedTotalAttendance s' cid) = plainOf (encryptedTotalAttendance s cid) + 1 \<and>
       plainOf (encryptedStudentScore s' (msg_sender e)) =
         plainOf (encryptedStudentScore s (msg_sender e)) + 10) \<and>
    (status = 2 \<longrightarrow>
       plainOf (encryptedTotalAttendance s' cid) = plainOf (encryptedTotalAttendance s cid) \<and>
       plainOf (encryptedStudentScore s' (msg_sender e)) =
         plainOf (encryptedStudentScore s (msg_sender e)))"
  using assms
  by (auto simp: checkIn_def FHE_fromExternal_def Let_def fhe_defs
      split: option.splits if_splits)

text \<open>Student 3 checks in as present on course 1 at time 1061: the total becomes 1 and the
  score 10.\<close>

theorem checkIn_records_status_and_adds_witness:
  "\<exists>s'. checkIn (txEnv 3 1061) 1 1 [0] afterSetup = Inr s' \<and>
     encryptedAttendance s' 1 3 = Ciphertext 1 {0xC0DE, 3, 2} \<and>
     plainOf (encryptedTotalAttendance s' 1) = 1 \<and>
     plainOf (encryptedStudentScore s' 3) = 10"
proof -
  obtain s' where ok: "checkIn (txEnv 3 1061) 1 1 [0] afterSetup = Inr s'"
    by (simp add: eval_defs)
  have before: "plainOf (encryptedTotalAttendance afterSetup 1) = 0"
    "plainOf (encryptedStudentScore afterSetup 3) = 0" "teacher (courses afterSetup 1) = 2"
    by (simp_all add: eval_defs)
  from checkIn_records_status_and_adds [OF ok] before ok show ?thesis
    by (auto simp: txEnv_def)
qed

text \<open>
  Claim C2, as amended. For a call to \<^verbatim>\<open>checkIn\<close> by a registered student on an
  existing course of a reachable state: the call reverts with "Course not started" when the
  block time is strictly before the start, with "Course already ended" when it is strictly
  after the end, and with "Course finalized" when the course is finalized and the block
  time lies within the window (the time checks come first). The bounds are inclusive: at
  the start time and at the end time neither time check rejects the call.
\<close>

theorem checkIn_window_and_finalization_reverts:
  assumes "reachable s" and "isStudent s (msg_sender e)" and "courseExists cid s = None"
  shows "(block_timestamp e < startTime (courses s cid) \<longrightarrow>
            checkIn e cid encryptedStatus inputProof s = Inl (Revert ''Course not started'')) \<and>
         (endTime (courses s cid) < block_timestamp e \<longrightarrow>
            checkIn e cid encryptedStatus inputProof s = Inl (Revert ''Course already ended'')) \<and>
         (isFinalized (courses s cid) \<and> startTime (courses s cid) \<le> block_timestamp e \<and>
          block_timestamp e \<le> endTime (courses s cid) \<longrightarrow>
            checkIn e cid encryptedStatus inputProof s = Inl (Revert ''Course finalized'')) \<and>
         (block_timestamp e = startTime (courses s cid) \<or>
          block_timestamp e = endTime (courses s cid) \<longrightarrow>
            checkIn e cid encryptedStatus inputProof s \<noteq> Inl (Revert ''Course not started'') \<and>
            checkIn e cid encryptedStatus inputProof s \<noteq> Inl (Revert ''Course already ended''))"
proof -
  from assms(1) courseExists_stored [OF assms(3)]
  have lt: "startTime (courses s cid) < endTime (courses s cid)"
    by (rule reachable_course_times)
  from assms(2,3) lt show ?thesis
    by (auto simp: checkIn_def onlyStudent_def FHE_fromExternal_def Let_def
        split: option.splits)
qed

theorem checkIn_finalized_before_start_counterexample:
  "reachable finalizedEarly \<and> isStudent finalizedEarly 3 \<and>
   courseExists 1 finalizedEarly = None \<and> isFinalized (courses finalizedEarly 1) \<and>
   checkIn (txEnv 3 1020) 1 1 [0] finalizedEarly = Inl (Revert ''Course not started'') \<and>
   checkIn (txEnv 3 1020) 1 1 [0] finalizedEarly \<noteq> Inl (Revert ''Course finalized'')"
proof -
  have "reachable finalizedEarly"
    unfolding finalizedEarly_def by (rule reachable_stateAfter)
  moreover have "isStudent finalizedEarly 3 \<and>
   courseExists 1 finalizedEarly = None \<and> isFinalized (courses finalizedEarly 1) \<and>
   checkIn (txEnv 3 1020) 1 1 [0] finalizedEarly = Inl (Revert ''Course not started'') \<and>
   checkIn (txEnv 3 1020) 1 1 [0] finalizedEarly \<noteq> Inl (Revert ''Course finalized'')"
    by (simp add: eval_defs finalizedEarly_def)
  ultimately show ?thesis by blast
qed

theorem checkIn_window_and_finalization_reverts_witness:
  "reachable afterSetup \<and> isStudent afterSetup 3 \<and> courseExists 1 afterSetup = None \<and>
   checkIn (txEnv 3 1059) 1 1 [0] afterSetup = Inl (Revert ''Course not started'') \<and>
   checkIn (txEnv 3 4661) 1 1 [0] afterSetup = Inl (Revert ''Course already ended'') \<and>
   checkIn (txEnv 3 1060) 1 1 [0] afterSetup \<noteq> Inl (Revert ''Course not started'') \<and>
   checkIn (txEnv 3 4660) 1 1 [0] afterSetup \<noteq> Inl (Revert ''Course already ended'') \<and>
   reachable finalizedOpen \<and> isStudent finalizedOpen 3 \<and> courseExists 1 finalizedOpen = None \<and>
   isFinalized (courses finalizedOpen 1) \<and>
   checkIn (txEnv 3 2001) 1 1 [0] finalizedOpen = Inl (Revert ''Course finalized'')"
proof -
  have r: "reachable afterSetup" "reachable finalizedOpen"
    unfolding afterSetup_def finalizedOpen_def by (rule reachable_stateAfter)+
  have a: "isStudent afterSetup 3" "courseExists 1 afterSetup = None"
    "startTime (courses afterSetup 1) = 1060" "endTime (courses afterSetup 1) = 4660"
    by (simp_all add: eval_defs finalizedOpen_def)
  have f: "isStudent finalizedOpen 3" "courseExists 1 finalizedOpen = None"
    "startTime (courses finalizedOpen 1) = 1060" "endTime (courses finalizedOpen 1) = 4660"
    "isFinalized (courses finalizedOpen 1)"
    by (simp_all add: eval_defs finalizedOpen_def)
  have s3: "msg_sender (txEnv 3 t) = 3" "block_timestamp (txEnv 3 t) = t" for t
    by (simp_all add: txEnv_def)
  note T = checkIn_window_and_finalization_reverts
  note A = T [of afterSetup _ 1 1 "[0]", OF r(1) _ a(2)]
  from A [of "txEnv 3 1059"] A [of "txEnv 3 4661"] A [of "txEnv 3 1060"] A [of "txEnv 3 4660"]
    T [of finalizedOpen "txEnv 3 2001" 1 1 "[0]", OF r(2) _ f(2)] r a f
  show ?thesis
    by (simp add: s3)
qed


text \<open>
  Claim C3. There is no resubmission guard: after a successful \<^verbatim>\<open>checkIn\<close>, a second
  one by the same student on the same course, inside the time window and with an input
  the runtime accepts, succeeds as well. It overwrites the attendance cell with its own
  ciphertext and adds to the course total and to the score by its own status alone; two
  submissions of "present" raise the total by 2 and the score by 20 (sums of 32-bit words).
\<close>

theorem second_checkIn_overwrites_and_adds_again:
  assumes first: "checkIn e1 cid x1 p1 s = Inr s1"
    and same: "msg_sender e2 = msg_sender e1"
    and window: "startTime (courses s cid) \<le> block_timestamp e2"
      "block_timestamp e2 \<le> endTime (courses s cid)"
    and valid: "verifyInput e2 x2 p2 = Some v2"
  shows "\<exists>v1 s2. verifyInput e1 x1 p1 = Some v1 \<and> checkIn e2 cid x2 p2 s1 = Inr s2 \<and>
    encryptedAttendance s1 cid (msg_sender e1) =
      Ciphertext v1 {address_this e1, msg_sender e1, teacher (courses s cid)} \<and>
    encryptedAttendance s2 cid (msg_sender e1) =
      Ciphertext v2 {address_this e2, msg_sender e1, teacher (courses s cid)} \<and>
    plainOf (encryptedTotalAttendance s2 cid) =
      plainOf (encryptedTotalAttendance s1 cid) + (if v2 = 1 then 1 else 0) \<and>
    plainOf (encryptedStudentScore s2 (msg_sender e1)) =
      plainOf (encryptedStudentScore s1 (msg_sender e1)) + (if v2 = 1 then 10 else 0) \<and>
    (v1 = 1 \<and> v2 = 1 \<longrightarrow>
       plainOf (encryptedTotalAttendance s2 cid) = plainOf (encryptedTotalAttendance s cid) + 2 \<and>
       plainOf (encryptedStudentScore s2 (msg_sender e1)) =
         plainOf (encryptedStudentScore s (msg_sender e1)) + 20)"
proof -
  note fr = checkIn_frame [OF first]
  from checkIn_effect [OF first] obtain v1 where
    v1: "verifyInput e1 x1 p1 = Some v1"
    and c1: "encryptedAttendance s1 cid (msg_sender e1) =
      Ciphertext v1 {address_this e1, msg_sender e1, teacher (courses s cid)}"
    and p1: "v1 = 1 \<longrightarrow>
       plainOf (encryptedTotalAttendance s1 cid) = plainOf (encryptedTotalAttendance s cid) + 1 \<and>
       plainOf (encryptedStudentScore s1 (msg_sender e1)) =
         plainOf (encryptedStudentScore s (msg_sender e1)) + 10"
    by (elim exE conjE)
  have "\<exists>s2. checkIn e2 cid x2 p2 s1 = Inr s2"
  proof (rule checkIn_succeeds)
    show "isStudent s1 (msg_sender e2)" using fr same by simp
    show "courseExists cid s1 = None" using fr by (simp add: courseExists_def split: if_splits)
    show "startTime (courses s1 cid) \<le> block_timestamp e2" using fr window by simp
    show "block_timestamp e2 \<le> endTime (courses s1 cid)" using fr window by simp
    show "\<not> isFinalized (courses s1 cid)" using fr by simp
    show "verifyInput e2 x2 p2 = Some v2" by (rule valid)
  qed
  then obtain s2 where second: "checkIn e2 cid x2 p2 s1 = Inr s2" ..
  from checkIn_effect [OF second] obtain v where
    v: "verifyInput e2 x2 p2 = Some v"
    and c2': "encryptedAttendance s2 cid (msg_sender e2) =
      Ciphertext v {address_this e2, msg_sender e2, teacher (courses s1 cid)}"
    and p2: "v = 1 \<longrightarrow>
       plainOf (encryptedTotalAttendance s2 cid) = plainOf (encryptedTotalAttendance s1 cid) + 1 \<and>
       plainOf (encryptedStudentScore s2 (msg_sender e2)) =
         plainOf (encryptedStudentScore s1 (msg_sender e2)) + 10"
    and n2: "v \<noteq> 1 \<longrightarrow>
       plainOf (encryptedTotalAttendance s2 cid) = plainOf (encryptedTotalAttendance s1 cid) \<and>
       plainOf (encryptedStudentScore s2 (msg_sender e2)) =
         plainOf (encryptedStudentScore s1 (msg_sender e2))"
    by (elim exE conjE)
  from v valid have vv: "v = v2" by simp
  from fr have cs: "courses s1 = courses s" by simp
  have c2: "encryptedAttendance s2 cid (msg_sender e1) =
      Ciphertext v2 {address_this e2, msg_sender e1, teacher (courses s cid)}"
    using c2' by (simp add: vv same cs)
  have d2: "plainOf (encryptedTotalAttendance s2 cid) =
      plainOf (encryptedTotalAttendance s1 cid) + (if v2 = 1 then 1 else 0)"
    "plainOf (encryptedStudentScore s2 (msg_sender e1)) =
      plainOf (encryptedStudentScore s1 (msg_sender e1)) + (if v2 = 1 then 10 else 0)"
    using p2 n2 by (simp_all add: vv same)
  have both: "v1 = 1 \<and> v2 = 1 \<longrightarrow>
       plainOf (encryptedTotalAttendance s2 cid) = plainOf (encryptedTotalAttendance s cid) + 2 \<and>
       plainOf (encryptedStudentScore s2 (msg_sender e1)) =
         plainOf (encryptedStudentScore s (msg_sender e1)) + 20"
    using p1 d2 by simp
  from v1 second c1 c2 d2 both show ?thesis
    by (intro exI conjI)
qed

text \<open>Student 3 checks in as present at time 1061 and again at time 1100: the total goes
  from 0 to 2 and the score from 0 to 20.\<close>

theorem second_checkIn_overwrites_and_adds_again_witness:
  "\<exists>s1 s2. checkIn (txEnv 3 1061) 1 1 [0] afterSetup = Inr s1 \<and>
     checkIn (txEnv 3 1100) 1 1 [0] s1 = Inr s2 \<and>
     encryptedAttendance s2 1 3 = Ciphertext 1 {0xC0DE, 3, 2} \<and>
     plainOf (encryptedTotalAttendance afterSetup 1) = 0 \<and>
     plainOf (encryptedTotalAttendance s2 1) = 2 \<and>
     plainOf (encryptedStudentScore afterSetup 3) = 0 \<and>
     plainOf (encryptedStudentScore s2 3) = 20"
proof -
  obtain s1 where first: "checkIn (txEnv 3 1061) 1 1 [0] afterSetup = Inr s1"
    by (simp add: eval_defs)
  have before: "plainOf (encryptedTotalAttendance afterSetup 1) = 0"
    "plainOf (encryptedStudentScore afterSetup 3) = 0" "teacher (courses afterSetup 1) = 2"
    "startTime (courses afterSetup 1) = 1060" "endTime (courses afterSetup 1) = 4660"
    by (simp_all add: eval_defs)
  have env: "msg_sender (txEnv 3 t) = 3" "block_timestamp (txEnv 3 t) = t"
    "address_this (txEnv 3 t) = 0xC0DE" "verifyInput (txEnv 3 t) 1 [0] = Some 1" for t
    by (simp_all add: txEnv_def)
  have "\<exists>v1 s2. verifyInput (txEnv 3 1061) 1 [0] = Some v1 \<and>
    checkIn (txEnv 3 1100) 1 1 [0] s1 = Inr s2 \<and>
    encryptedAttendance s1 1 (msg_sender (txEnv 3 1061)) =
      Ciphertext v1 {address_this (txEnv 3 1061), msg_sender (txEnv 3 1061),
        teacher (courses afterSetup 1)} \<and>
    encryptedAttendance s2 1 (msg_sender (txEnv 3 1061)) =
      Ciphertext 1 {address_this (txEnv 3 1100), msg_sender (txEnv 3 1061),
        teacher (courses afterSetup 1)} \<and>
    plainOf (encryptedTotalAttendance s2 1) =
      plainOf (encryptedTotalAttendance s1 1) + (if (1::8 word) = 1 then 1 else 0) \<and>
    plainOf (encryptedStudentScore s2 (msg_sender (txEnv 3 1061))) =
      plainOf (encryptedStudentScore s1 (msg_sender (txEnv 3 1061))) +
        (if (1::8 word) = 1 then 10 else 0) \<and>
    (v1 = 1 \<and> (1::8 word) = 1 \<longrightarrow>
       plainOf (encryptedTotalAttendance s2 1) =
         plainOf (encryptedTotalAttendance afterSetup 1) + 2 \<and>
       plainOf (encryptedStudentScore s2 (msg_sender (txEnv 3 1061))) =
         plainOf (encryptedStudentScore afterSetup (msg_sender (txEnv 3 1061))) + 20)"
  proof (rule second_checkIn_overwrites_and_adds_again [OF first])
    show "msg_sender (txEnv 3 1100) = msg_sender (txEnv 3 1061)" by (simp add: env)
    show "startTime (courses afterSetup 1) \<le> block_timestamp (txEnv 3 1100)"
      by (simp add: env before)
    show "block_timestamp (txEnv 3 1100) \<le> endTime (courses afterSetup 1)"
      by (simp add: env before)
    show "verifyInput (txEnv 3 1100) 1 [0] = Some 1" by (simp add: env)
  qed
  then obtain v1 s2 where
    "verifyInput (txEnv 3 1061) 1 [0] = Some v1"
    "checkIn (txEnv 3 1100) 1 1 [0] s1 = Inr s2"
    "encryptedAttendance s2 1 (msg_sender (txEnv 3 1061)) =
      Ciphertext 1 {address_this (txEnv 3 1100), msg_sender (txEnv 3 1061),
        teacher (courses afterSetup 1)}"
    "v1 = 1 \<and> (1::8 word) = 1 \<longrightarrow>
       plainOf (encryptedTotalAttendance s2 1) =
         plainOf (encryptedTotalAttendance afterSetup 1) + 2 \<and>
       plainOf (encryptedStudentScore s2 (msg_sender (txEnv 3 1061))) =
         plainOf (encryptedStudentScore afterSetup (msg_sender (txEnv 3 1061))) + 20"
    by (elim exE conjE)
  then have "checkIn (txEnv 3 1100) 1 1 [0] s1 = Inr s2"
    "encryptedAttendance s2 1 3 = Ciphertext 1 {0xC0DE, 3, 2}"
    "plainOf (encryptedTotalAttendance s2 1) = 2"
    "plainOf (encryptedStudentScore s2 3) = 20"
    by (simp_all add: env before)
  with first before show ?thesis
    by (intro exI conjI)
qed

section \<open>Finalization\<close>

text \<open>
  Claim C4, as amended. A successful \<^verbatim>\<open>finalizeCourse\<close> (its caller is the course's
  teacher) sets \<^verbatim>\<open>isFinalized\<close> and clears \<^verbatim>\<open>isActive\<close>, whatever \<^verbatim>\<open>isActive\<close>
  was. After any further transactions the course is still finalized and inactive, and every
  further \<^verbatim>\<open>finalizeCourse\<close> and \<^verbatim>\<open>toggleCourseStatus\<close> on it reverts: with
  "Course already finalized" and "Cannot modify finalized course" when the caller is the
  course's teacher; with "Only teacher" when the caller is no teacher; with "Only course
  teacher can finalize" and "Only course teacher can modify" when the caller is a teacher
  other than the course's (the role checks come first).
\<close>

theorem finalization_is_one_way:
  assumes "reachable s" and "finalizeCourse e cid s = Inr s1" and "run s1 txs = Inr s2"
  shows "isFinalized (courses s1 cid) \<and> \<not> isActive (courses s1 cid) \<and>
    isFinalized (courses s2 cid) \<and> \<not> isActive (courses s2 cid) \<and>
    (\<exists>err. finalizeCourse e' cid s2 = Inl err) \<and>
    (\<exists>err. toggleCourseStatus e' cid s2 = Inl err) \<and>
    (msg_sender e' = teacher (courses s cid) \<longrightarrow>
       finalizeCourse e' cid s2 = Inl (Revert ''Course already finalized'') \<and>
       toggleCourseStatus e' cid s2 = Inl (Revert ''Cannot modify finalized course'')) \<and>
    (\<not> isTeacher s2 (msg_sender e') \<longrightarrow>
       finalizeCourse e' cid s2 = Inl (Revert ''Only teacher'') \<and>
       toggleCourseStatus e' cid s2 = Inl (Revert ''Only teacher'')) \<and>
    (isTeacher s2 (msg_sender e') \<and> msg_sender e' \<noteq> teacher (courses s cid) \<longrightarrow>
       finalizeCourse e' cid s2 = Inl (Revert ''Only course teacher can finalize'') \<and>
       toggleCourseStatus e' cid s2 = Inl (Revert ''Only course teacher can modify''))"
proof -
  from assms(2) have t: "isTeacher s (teacher (courses s cid))"
    and stored: "courseId (courses s cid) \<noteq> 0"
    and s1: "s1 = s\<lparr>courses := (courses s)(cid :=
               (courses s cid)\<lparr>isFinalized := True, isActive := False\<rparr>)\<rparr>"
    by (auto simp: finalizeCourse_def onlyTeacher_def split: if_splits)
  from s1 have f1: "isFinalized (courses s1 cid)" "\<not> isActive (courses s1 cid)"
    and keep: "courseId (courses s1 cid) = courseId (courses s cid)"
      "teacher (courses s1 cid) = teacher (courses s cid)" "isTeacher s1 = isTeacher s"
    by simp_all
  from assms(2) have "exec e (FinalizeCourse cid) s = Inr s1" by simp
  with assms(1) have r1: "reachable s1" by (rule reachable.transaction)
  from run_keeps_finalized [OF r1 assms(3) f1, of "teacher (courses s cid)"] keep t stored
  have f2: "isFinalized (courses s2 cid)" "\<not> isActive (courses s2 cid)"
    and id2: "courseId (courses s2 cid) \<noteq> 0"
    and t2: "teacher (courses s2 cid) = teacher (courses s cid)"
    and it2: "isTeacher s2 (teacher (courses s cid))"
    by simp_all
  from f2 have any: "(\<exists>err. finalizeCourse e' cid s2 = Inl err) \<and>
      (\<exists>err. toggleCourseStatus e' cid s2 = Inl err)"
    by (simp add: finalizeCourse_def toggleCourseStatus_def onlyTeacher_def)
  from f2 id2 t2 it2 have own: "msg_sender e' = teacher (courses s cid) \<longrightarrow>
       finalizeCourse e' cid s2 = Inl (Revert ''Course already finalized'') \<and>
       toggleCourseStatus e' cid s2 = Inl (Revert ''Cannot modify finalized course'')"
    by (simp add: finalizeCourse_def toggleCourseStatus_def onlyTeacher_def)
  have stranger: "\<not> isTeacher s2 (msg_sender e') \<longrightarrow>
       finalizeCourse e' cid s2 = Inl (Revert ''Only teacher'') \<and>
       toggleCourseStatus e' cid s2 = Inl (Revert ''Only teacher'')"
    by (simp add: finalizeCourse_def toggleCourseStatus_def onlyTeacher_def)
  from id2 t2 have other: "isTeacher s2 (msg_sender e') \<and>
      msg_sender e' \<noteq> teacher (courses s cid) \<longrightarrow>
       finalizeCourse e' cid s2 = Inl (Revert ''Only course teacher can finalize'') \<and>
       toggleCourseStatus e' cid s2 = Inl (Revert ''Only course teacher can modify'')"
    by (auto simp: finalizeCourse_def toggleCourseStatus_def onlyTeacher_def)
  from f1 f2 any own stranger other show ?thesis
    by (intro conjI) simp_all
qed

text \<open>Teacher 2 finalizes the active course 1; the admin then registers another teacher,
  address 5. The course stays finalized and inactive. The course's teacher gets the
  finalized messages, teacher 5 the course-teacher messages, student 3 "Only teacher".\<close>

theorem finalization_is_one_way_witness:
  "\<exists>s1 s2. isActive (courses afterSetup 1) \<and>
     finalizeCourse (txEnv 2 1010) 1 afterSetup = Inr s1 \<and>
     run s1 [(txEnv 1 1011, RegisterTeacher 5)] = Inr s2 \<and>
     isFinalized (courses s2 1) \<and> \<not> isActive (courses s2 1) \<and>
     finalizeCourse (txEnv 2 1500) 1 s2 = Inl (Revert ''Course already finalized'') \<and>
     toggleCourseStatus (txEnv 2 1500) 1 s2 = Inl (Revert ''Cannot modify finalized course'') \<and>
     isTeacher s2 5 \<and>
     finalizeCourse (txEnv 5 1500) 1 s2 = Inl (Revert ''Only course teacher can finalize'') \<and>
     toggleCourseStatus (txEnv 5 1500) 1 s2 = Inl (Revert ''Only course teacher can modify'') \<and>
     \<not> isTeacher s2 3 \<and>
     finalizeCourse (txEnv 3 1500) 1 s2 = Inl (Revert ''Only teacher'') \<and>
     toggleCourseStatus (txEnv 3 1500) 1 s2 = Inl (Revert ''Only teacher'')"
proof -
  have r: "reachable afterSetup"
    unfolding afterSetup_def by (rule reachable_stateAfter)
  have a: "isActive (courses afterSetup 1)" "teacher (courses afterSetup 1) = 2"
    "isTeacher afterSetup 2" "\<not> isTeacher afterSetup 3" "\<not> isTeacher afterSetup 5"
    "admin afterSetup = 1"
    by (simp_all add: eval_defs)
  obtain s1 where s1: "finalizeCourse (txEnv 2 1010) 1 afterSetup = Inr s1"
    by (simp add: eval_defs)
  with a have s1': "admin s1 = 1" "isTeacher s1 = isTeacher afterSetup"
    by (auto simp: finalizeCourse_def onlyTeacher_def split: if_splits)
  then obtain s2 where s2: "run s1 [(txEnv 1 1011, RegisterTeacher 5)] = Inr s2"
    by (simp add: registerTeacher_def onlyAdmin_def txEnv_def)
  with s1' a have roles: "isTeacher s2 5" "\<not> isTeacher s2 3"
    by (auto simp: registerTeacher_def onlyAdmin_def txEnv_def)
  have caller: "msg_sender (txEnv x t) = x" for x t
    by (simp add: txEnv_def)
  note T = finalization_is_one_way [OF r s1 s2]
  from T [of "txEnv 2 1500"] a caller
  have own: "isFinalized (courses s2 1)" "\<not> isActive (courses s2 1)"
     "finalizeCourse (txEnv 2 1500) 1 s2 = Inl (Revert ''Course already finalized'')"
     "toggleCourseStatus (txEnv 2 1500) 1 s2 = Inl (Revert ''Cannot modify finalized course'')"
    by simp_all
  from T [of "txEnv 5 1500"] a roles
  have other: "finalizeCourse (txEnv 5 1500) 1 s2 =
       Inl (Revert ''Only course teacher can finalize'')"
     "toggleCourseStatus (txEnv 5 1500) 1 s2 = Inl (Revert ''Only course teacher can modify'')"
    by (simp_all add: caller)
  from T [of "txEnv 3 1500"] roles
  have stranger: "finalizeCourse (txEnv 3 1500) 1 s2 = Inl (Revert ''Only teacher'')"
     "toggleCourseStatus (txEnv 3 1500) 1 s2 = Inl (Revert ''Only teacher'')"
    by (simp_all add: caller)
  from a(1) s1 s2 own roles other stranger show ?thesis
    by (intro exI conjI)
qed

text \<open>The claim as stated fails: on the finalized course 1, a registered teacher who is not
  the course's teacher (address 5) and a student (address 3) get the role errors, not
  "Course already finalized" or "Cannot modify finalized course".\<close>

theorem finalize_again_by_other_caller_counterexample:
  "reachable finalizedTwoTeachers \<and> isFinalized (courses finalizedTwoTeachers 1) \<and>
   isTeacher finalizedTwoTeachers 5 \<and>
   finalizeCourse (txEnv 5 1020) 1 finalizedTwoTeachers =
     Inl (Revert ''Only course teacher can finalize'') \<and>
   toggleCourseStatus (txEnv 5 1020) 1 finalizedTwoTeachers =
     Inl (Revert ''Only course teacher can modify'') \<and>
   finalizeCourse (txEnv 3 1020) 1 finalizedTwoTeachers = Inl (Revert ''Only teacher'') \<and>
   toggleCourseStatus (txEnv 3 1020) 1 finalizedTwoTeachers = Inl (Revert ''Only teacher'')"
proof -
  have "reachable finalizedTwoTeachers"
    unfolding finalizedTwoTeachers_def by (rule reachable_stateAfter)
  moreover have "isFinalized (courses finalizedTwoTeachers 1) \<and>
   isTeacher finalizedTwoTeachers 5 \<and>
   finalizeCourse (txEnv 5 1020) 1 finalizedTwoTeachers =
     Inl (Revert ''Only course teacher can finalize'') \<and>
   toggleCourseStatus (txEnv 5 1020) 1 finalizedTwoTeachers =
     Inl (Revert ''Only course teacher can modify'') \<and>
   finalizeCourse (txEnv 3 1020) 1 finalizedTwoTeachers = Inl (Revert ''Only teacher'') \<and>
   toggleCourseStatus (txEnv 3 1020) 1 finalizedTwoTeachers = Inl (Revert ''Only teacher'')"
    by (simp add: eval_defs finalizedTwoTeachers_def)
  ultimately show ?thesis by (rule conjI)
qed

section \<open>Encrypted reads\<close>

text \<open>
  Claim C5. On an existing course, \<^verbatim>\<open>getStudentAttendance\<close> returns the student's cell
  to the student, the course's teacher and the admin, and reverts with "Not authorized" for
  every other caller; \<^verbatim>\<open>getCourseAttendance\<close> returns the total to the course's teacher
  and the admin and reverts with "Not authorized" otherwise. \<^verbatim>\<open>getStudentScore\<close> takes
  no course: in every state it returns the score to the student and the admin and reverts
  with "Not authorized" otherwise.
\<close>

theorem encrypted_reads_require_authorization:
  "(courseExists cid s = None \<longrightarrow>
      getStudentAttendance e cid student s =
        (if msg_sender e = student \<or> msg_sender e = teacher (courses s cid) \<or>
            msg_sender e = admin s
         then Inr (encryptedAttendance s cid student) else Inl (Revert ''Not authorized'')) \<and>
      getCourseAttendance e cid s =
        (if msg_sender e = teacher (courses s cid) \<or> msg_sender e = admin s
         then Inr (encryptedTotalAttendance s cid) else Inl (Revert ''Not authorized''))) \<and>
    getStudentScore e student s =
      (if msg_sender e = student \<or> msg_sender e = admin s
       then Inr (encryptedStudentScore s student) else Inl (Revert ''Not authorized''))"
  by (simp add: getStudentAttendance_def getCourseAttendance_def getStudentScore_def)

text \<open>On course 1 (teacher 2, admin 1): a stranger cannot read student 3's cell, the
  student cannot read the total, the teacher cannot read the student's score; the teacher
  can read the student's cell. Before any course exists, student 6 holds the score 7: a
  stranger cannot read it, the student can.\<close>

theorem encrypted_reads_require_authorization_witness:
  "courseExists 1 afterSetup = None \<and>
   getStudentAttendance (txEnv 9 1100) 1 3 afterSetup = Inl (Revert ''Not authorized'') \<and>
   getCourseAttendance (txEnv 3 1100) 1 afterSetup = Inl (Revert ''Not authorized'') \<and>
   getStudentScore (txEnv 2 1100) 3 afterSetup = Inl (Revert ''Not authorized'') \<and>
   getStudentAttendance (txEnv 2 1100) 1 3 afterSetup = Inr Uninitialized \<and>
   nextCourseId scoredBeforeCourses = 1 \<and>
   plainOf (encryptedStudentScore scoredBeforeCourses 6) = 7 \<and>
   getStudentScore (txEnv 9 1100) 6 scoredBeforeCourses = Inl (Revert ''Not authorized'') \<and>
   getStudentScore (txEnv 6 1100) 6 scoredBeforeCourses =
     Inr (encryptedStudentScore scoredBeforeCourses 6)"
proof -
  have a: "courseExists 1 afterSetup = None" "teacher (courses afterSetup 1) = 2"
    "admin afterSetup = 1" "encryptedAttendance afterSetup 1 3 = Uninitialized"
    by (simp_all add: eval_defs)
  have b: "nextCourseId scoredBeforeCourses = 1" "admin scoredBeforeCourses = 1"
    "plainOf (encryptedStudentScore scoredBeforeCourses 6) = 7"
    by (simp_all add: eval_defs scoredBeforeCourses_def)
  have caller: "msg_sender (txEnv x t) = x" for x t
    by (simp add: txEnv_def)
  note T = encrypted_reads_require_authorization
  from T [of 1 afterSetup "txEnv 9 1100" 3] T [of 1 afterSetup "txEnv 3 1100" 3]
    T [of 1 afterSetup "txEnv 2 1100" 3] T [of 1 scoredBeforeCourses "txEnv 9 1100" 6]
    T [of 1 scoredBeforeCourses "txEnv 6 1100" 6] a b
  show ?thesis
    by (simp add: caller)
qed

section \<open>Course creation\<close>

text \<open>
  Claim C6, as amended. In every reachable state a stored course ends after it starts;
  \<^verbatim>\<open>createCourse\<close> stores a course with the given times only when the end is after the
  start, and no transaction changes the name, teacher, start or end of a stored course.
  Called by a teacher, \<^verbatim>\<open>createCourse\<close> reverts with "Start time must not be too far
  in the past" when the start is more than 300 seconds before the block time, and with
  "End time must be after start" when the end is not after the start and the start-time
  check, which comes first, has passed.
\<close>

theorem course_times_fixed_and_createCourse_validation:
  assumes "reachable s"
  shows "(courseId (courses s cid) \<noteq> 0 \<longrightarrow>
            startTime (courses s cid) < endTime (courses s cid)) \<and>
    (createCourse e n st en s = Inr (s1, new) \<longrightarrow>
       new \<noteq> 0 \<and> courseId (courses s1 new) = new \<and> startTime (courses s1 new) = st \<and>
       endTime (courses s1 new) = en \<and> st < en) \<and>
    (courseId (courses s cid) \<noteq> 0 \<and> exec e c s = Inr s2 \<longrightarrow>
       name (courses s2 cid) = name (courses s cid) \<and>
       teacher (courses s2 cid) = teacher (courses s cid) \<and>
       startTime (courses s2 cid) = startTime (courses s cid) \<and>
       endTime (courses s2 cid) = endTime (courses s cid)) \<and>
    (isTeacher s (msg_sender e) \<and> unat st + 300 < unat (block_timestamp e) \<longrightarrow>
       createCourse e n st en s = Inl (Revert ''Start time must not be too far in the past'')) \<and>
    (isTeacher s (msg_sender e) \<and> 300 \<le> block_timestamp e \<and>
     block_timestamp e - 300 < st \<and> en \<le> st \<longrightarrow>
       createCourse e n st en s = Inl (Revert ''End time must be after start''))"
proof -
  from assms have wf: "wellFormed s" by (rule reachable_wellFormed)
  then have times: "courseId (courses s cid) \<noteq> 0 \<longrightarrow>
      startTime (courses s cid) < endTime (courses s cid)"
    by (simp add: wellFormed_def)
  have created: "createCourse e n st en s = Inr (s1, new) \<longrightarrow>
       new \<noteq> 0 \<and> courseId (courses s1 new) = new \<and> startTime (courses s1 new) = st \<and>
       endTime (courses s1 new) = en \<and> st < en"
  proof
    assume "createCourse e n st en s = Inr (s1, new)"
    from createCourse_result [OF this] wf show "new \<noteq> 0 \<and> courseId (courses s1 new) = new \<and>
       startTime (courses s1 new) = st \<and> endTime (courses s1 new) = en \<and> st < en"
      by (simp add: wellFormed_def)
  qed
  have fixed: "courseId (courses s cid) \<noteq> 0 \<and> exec e c s = Inr s2 \<longrightarrow>
       name (courses s2 cid) = name (courses s cid) \<and>
       teacher (courses s2 cid) = teacher (courses s cid) \<and>
       startTime (courses s2 cid) = startTime (courses s cid) \<and>
       endTime (courses s2 cid) = endTime (courses s cid)"
    using exec_course_immutable [OF wf, of e c s2 cid] by simp
  have past: "isTeacher s (msg_sender e) \<and> unat st + 300 < unat (block_timestamp e) \<longrightarrow>
       createCourse e n st en s = Inl (Revert ''Start time must not be too far in the past'')"
    using grace_window_far_past [of st "block_timestamp e"]
    by (simp add: createCourse_def onlyTeacher_def)
  have order: "isTeacher s (msg_sender e) \<and> 300 \<le> block_timestamp e \<and>
     block_timestamp e - 300 < st \<and> en \<le> st \<longrightarrow>
       createCourse e n st en s = Inl (Revert ''End time must be after start'')"
    by (auto simp: createCourse_def onlyTeacher_def)
  from times created fixed past order show ?thesis
    by (intro conjI)
qed

text \<open>In the example state course 1 runs from 1060 to 4660. Deactivating it leaves its
  name, teacher and times as they were. At block time 1000 the teacher's course starting at
  500 is too far in the past; one starting at 1060 and ending at 1000 ends before it
  starts; one from 1100 to 2000 is stored as course 2.\<close>

theorem course_times_fixed_and_createCourse_validation_witness:
  "reachable afterSetup \<and> courseId (courses afterSetup 1) \<noteq> 0 \<and>
   startTime (courses afterSetup 1) < endTime (courses afterSetup 1) \<and>
   (\<exists>s2. exec (txEnv 2 1010) (ToggleCourseStatus 1) afterSetup = Inr s2 \<and>
      name (courses s2 1) = ''Math'' \<and> teacher (courses s2 1) = 2 \<and>
      startTime (courses s2 1) = 1060 \<and> endTime (courses s2 1) = 4660) \<and>
   (\<exists>s1. createCourse (txEnv 2 1000) ''Physics'' 1100 2000 afterSetup = Inr (s1, 2) \<and>
      startTime (courses s1 2) = 1100 \<and> endTime (courses s1 2) = 2000) \<and>
   createCourse (txEnv 2 1000) ''Late'' 500 600 afterSetup =
     Inl (Revert ''Start time must not be too far in the past'') \<and>
   createCourse (txEnv 2 1000) ''Backwards'' 1060 1000 afterSetup =
     Inl (Revert ''End time must be after start'')"
proof -
  have r: "reachable afterSetup"
    unfolding afterSetup_def by (rule reachable_stateAfter)
  note T = course_times_fixed_and_createCourse_validation [OF r]
  have a: "courseId (courses afterSetup 1) \<noteq> 0" "name (courses afterSetup 1) = ''Math''"
    "teacher (courses afterSetup 1) = 2" "startTime (courses afterSetup 1) = 1060"
    "endTime (courses afterSetup 1) = 4660" "isTeacher afterSetup 2"
    by (simp_all add: eval_defs)
  have env: "msg_sender (txEnv x t) = x" "block_timestamp (txEnv x t) = t" for x t
    by (simp_all add: txEnv_def)
  obtain s2 where s2: "exec (txEnv 2 1010) (ToggleCourseStatus 1) afterSetup = Inr s2"
    by (simp add: eval_defs)
  obtain s1 where s1: "createCourse (txEnv 2 1000) ''Physics'' 1100 2000 afterSetup = Inr (s1, 2)"
    by (simp add: eval_defs)
  from T [where cid = 1 and e = "txEnv 2 1010" and c = "ToggleCourseStatus 1" and ?s2.0 = s2]
    a s2
  have toggled: "name (courses s2 1) = ''Math''" "teacher (courses s2 1) = 2"
    "startTime (courses s2 1) = 1060" "endTime (courses s2 1) = 4660"
    "startTime (courses afterSetup 1) < endTime (courses afterSetup 1)"
    by simp_all
  from T [where e = "txEnv 2 1000" and n = "''Physics''" and st = 1100 and en = 2000
      and ?s1.0 = s1 and new = 2] s1
  have created: "startTime (courses s1 2) = 1100" "endTime (courses s1 2) = 2000"
    by simp_all
  from T [where e = "txEnv 2 1000" and n = "''Late''" and st = 500 and en = 600] a
  have late: "createCourse (txEnv 2 1000) ''Late'' 500 600 afterSetup =
     Inl (Revert ''Start time must not be too far in the past'')"
    by (simp add: env)
  from T [where e = "txEnv 2 1000" and n = "''Backwards''" and st = 1060 and en = 1000] a
  have backwards: "createCourse (txEnv 2 1000) ''Backwards'' 1060 1000 afterSetup =
     Inl (Revert ''End time must be after start'')"
    by (simp add: env)
  from r a(1) toggled s2 s1 created late backwards show ?thesis
    by (intro conjI exI)
qed

text \<open>The claim as stated fails: at block time 1000 the teacher asks for a course from 100
  to 50. The end is not after the start, yet the call reverts with the start-time message,
  because that check comes first.\<close>

theorem createCourse_end_before_start_counterexample:
  "isTeacher afterSetup 2 \<and> (50 :: uint256) \<le> 100 \<and>
   createCourse (txEnv 2 1000) ''Late'' 100 50 afterSetup =
     Inl (Revert ''Start time must not be too far in the past'') \<and>
   createCourse (txEnv 2 1000) ''Late'' 100 50 afterSetup \<noteq>
     Inl (Revert ''End time must be after start'')"
  by (simp add: eval_defs)

section \<open>Registration and the admin\<close>

text \<open>
  Claim C7, as amended. \<^verbatim>\<open>selfRegister\<close> reverts with "Teachers cannot self-register
  as students" for every caller in the teacher set, and with "Already registered as
  student" for every caller in the student set who is not a teacher (the teacher check
  comes first); any other caller succeeds. A successful \<^verbatim>\<open>selfRegister\<close> marks the
  caller as a student and sets the caller's score to a ciphertext of zero that the contract
  and the caller are authorized on. A successful \<^verbatim>\<open>registerStudent\<close> changes the
  student flag and nothing else: it leaves every score as it was.
\<close>

theorem selfRegister_guards_and_score_initialization:
  "(isTeacher s (msg_sender e) \<longrightarrow>
      selfRegister e s = Inl (Revert ''Teachers cannot self-register as students'')) \<and>
   (\<not> isTeacher s (msg_sender e) \<and> isStudent s (msg_sender e) \<longrightarrow>
      selfRegister e s = Inl (Revert ''Already registered as student'')) \<and>
   (\<not> isTeacher s (msg_sender e) \<and> \<not> isStudent s (msg_sender e) \<longrightarrow>
      (\<exists>s1. selfRegister e s = Inr s1)) \<and>
   (selfRegister e s = Inr s1 \<longrightarrow>
      isStudent s1 (msg_sender e) \<and>
      encryptedStudentScore s1 (msg_sender e) = Ciphertext 0 {address_this e, msg_sender e}) \<and>
   (registerStudent e student s = Inr s2 \<longrightarrow>
      s2 = s\<lparr>isStudent := (isStudent s)(student := True)\<rparr> \<and>
      encryptedStudentScore s2 = encryptedStudentScore s)"
  by (auto simp: selfRegister_def registerStudent_def onlyAdmin_def Let_def
      FHE_asEuint32_def FHE_allowThis_def split: if_splits)

text \<open>In the example state teacher 2 and student 3 are turned away, each with its own
  message; address 6 registers itself and gets a zero score authorized for the contract
  and for itself; address 7, registered by the admin, has no score.\<close>

theorem selfRegister_guards_and_score_initialization_witness:
  "selfRegister (txEnv 2 1001) afterSetup =
     Inl (Revert ''Teachers cannot self-register as students'') \<and>
   selfRegister (txEnv 3 1001) afterSetup = Inl (Revert ''Already registered as student'') \<and>
   (\<exists>s1. selfRegister (txEnv 6 1001) afterSetup = Inr s1 \<and> isStudent s1 6 \<and>
      encryptedStudentScore s1 6 = Ciphertext 0 {0xC0DE, 6}) \<and>
   (\<exists>s2. registerStudent (txEnv 1 1001) 7 afterSetup = Inr s2 \<and> isStudent s2 7 \<and>
      encryptedStudentScore s2 7 = Uninitialized)"
proof -
  note T = selfRegister_guards_and_score_initialization
  have a: "isTeacher afterSetup 2" "\<not> isTeacher afterSetup 3" "isStudent afterSetup 3"
    "encryptedStudentScore afterSetup 7 = Uninitialized"
    by (simp_all add: eval_defs)
  have env: "msg_sender (txEnv x t) = x" "address_this (txEnv x t) = 0xC0DE" for x t
    by (simp_all add: txEnv_def)
  obtain s1 where s1: "selfRegister (txEnv 6 1001) afterSetup = Inr s1"
    by (simp add: eval_defs)
  obtain s2 where s2: "registerStudent (txEnv 1 1001) 7 afterSetup = Inr s2"
    by (simp add: eval_defs)
  from T [of afterSetup "txEnv 2 1001"] a
  have t: "selfRegister (txEnv 2 1001) afterSetup =
     Inl (Revert ''Teachers cannot self-register as students'')"
    by (simp add: env)
  from T [of afterSetup "txEnv 3 1001"] a
  have st: "selfRegister (txEnv 3 1001) afterSetup =
     Inl (Revert ''Already registered as student'')"
    by (simp add: env)
  from T [of afterSetup "txEnv 6 1001" s1] s1
  have self: "isStudent s1 6" "encryptedStudentScore s1 6 = Ciphertext 0 {0xC0DE, 6}"
    by (simp_all add: env)
  from T [of afterSetup "txEnv 1 1001" _ 7 s2] s2 a
  have adm: "isStudent s2 7" "encryptedStudentScore s2 7 = Uninitialized"
    by simp_all
  from t st s1 self s2 adm show ?thesis
    by (intro conjI exI)
qed

text \<open>The claim as stated fails: address 4, registered by the admin both as a teacher and
  as a student, is in the student set, yet its \<^verbatim>\<open>selfRegister\<close> reverts with the
  teacher message.\<close>

theorem selfRegister_teacher_and_student_counterexample:
  "reachable bothRoles \<and> isTeacher bothRoles 4 \<and> isStudent bothRoles 4 \<and>
   selfRegister (txEnv 4 1001) bothRoles =
     Inl (Revert ''Teachers cannot self-register as students'') \<and>
   selfRegister (txEnv 4 1001) bothRoles \<noteq> Inl (Revert ''Already registered as student'')"
proof -
  have "reachable bothRoles"
    unfolding bothRoles_def by (rule reachable_stateAfter)
  moreover have "isTeacher bothRoles 4 \<and> isStudent bothRoles 4 \<and>
   selfRegister (txEnv 4 1001) bothRoles =
     Inl (Revert ''Teachers cannot self-register as students'') \<and>
   selfRegister (txEnv 4 1001) bothRoles \<noteq> Inl (Revert ''Already registered as student'')"
    by (simp add: eval_defs bothRoles_def)
  ultimately show ?thesis by (rule conjI)
qed

text \<open>
  Claim C8. The constructor makes the deployer the admin. The contract has no function that
  assigns \<^verbatim>\<open>admin\<close> afterwards: after any sequence of successful transactions the admin
  is still the deployer. (The repository's test suite calls an \<^verbatim>\<open>updateAdmin\<close> function;
  the contract does not declare one.)
\<close>

theorem admin_is_deployer_and_never_reassigned:
  "admin (constructor e) = msg_sender e \<and>
   (run (constructor e) txs = Inr s \<longrightarrow> admin s = msg_sender e)"
  by (auto simp: constructor_def dest: run_admin)

text \<open>Address 1 deploys; after the three example transactions the admin is still 1.\<close>

theorem admin_is_deployer_and_never_reassigned_witness:
  "run (constructor (txEnv 1 1000)) setupTxs = Inr afterSetup \<and> admin afterSetup = 1"
proof -
  have r: "run (constructor (txEnv 1 1000)) setupTxs = Inr afterSetup"
    by (simp add: eval_defs)
  from admin_is_deployer_and_never_reassigned [of "txEnv 1 1000" setupTxs afterSetup] r
  show ?thesis
    by (simp add: txEnv_def)
qed

section \<open>Check-in and the active flag\<close>

text \<open>
  Claim C9, as amended. \<^verbatim>\<open>checkIn\<close> does not look at \<^verbatim>\<open>isActive\<close>: for a registered
  student, an existing course that is not finalized, a block time inside the window and an
  encrypted input the runtime accepts, \<^verbatim>\<open>checkIn\<close> succeeds although \<^verbatim>\<open>isActive\<close> is
  false, while \<^verbatim>\<open>getCourseDebugInfo\<close> reports \<^verbatim>\<open>canCheckIn = false\<close> for that course
  at that time.
\<close>

theorem checkIn_ignores_isActive:
  assumes "isStudent s (msg_sender e)" and "courseExists cid s = None"
    and "\<not> isFinalized (courses s cid)"
    and "startTime (courses s cid) \<le> block_timestamp e"
    and "block_timestamp e \<le> endTime (courses s cid)"
    and "verifyInput e encryptedStatus inputProof = Some status"
    and "\<not> isActive (courses s cid)"
  shows "(\<exists>s'. checkIn e cid encryptedStatus inputProof s = Inr s') \<and>
    getCourseDebugInfo e cid s =
      Inr (name (courses s cid), teacher (courses s cid), startTime (courses s cid),
           endTime (courses s cid), False, False, block_timestamp e, False)"
proof
  show "\<exists>s'. checkIn e cid encryptedStatus inputProof s = Inr s'"
    by (rule checkIn_succeeds [OF assms(1,2,4,5,3,6)])
  from assms(2,3,7) show "getCourseDebugInfo e cid s =
      Inr (name (courses s cid), teacher (courses s cid), startTime (courses s cid),
           endTime (courses s cid), False, False, block_timestamp e, False)"
    by (simp add: getCourseDebugInfo_def Let_def)
qed

text \<open>Course 1 was deactivated at time 1010. At time 1100 student 3 still checks in, while
  the debug view says no check-in is possible.\<close>

theorem checkIn_ignores_isActive_witness:
  "isStudent deactivated 3 \<and> courseExists 1 deactivated = None \<and>
   \<not> isFinalized (courses deactivated 1) \<and> \<not> isActive (courses deactivated 1) \<and>
   (\<exists>s'. checkIn (txEnv 3 1100) 1 1 [0] deactivated = Inr s') \<and>
   getCourseDebugInfo (txEnv 3 1100) 1 deactivated =
     Inr (''Math'', 2, 1060, 4660, False, False, 1100, False)"
proof -
  have d: "isStudent deactivated 3" "courseExists 1 deactivated = None"
    "\<not> isFinalized (courses deactivated 1)" "\<not> isActive (courses deactivated 1)"
    "startTime (courses deactivated 1) = 1060" "endTime (courses deactivated 1) = 4660"
    "name (courses deactivated 1) = ''Math''" "teacher (courses deactivated 1) = 2"
    by (simp_all add: eval_defs deactivated_def)
  have env: "msg_sender (txEnv 3 1100) = 3" "block_timestamp (txEnv 3 1100) = 1100"
    "verifyInput (txEnv 3 1100) 1 [0] = Some 1"
    by (simp_all add: txEnv_def)
  have "(\<exists>s'. checkIn (txEnv 3 1100) 1 1 [0] deactivated = Inr s') \<and>
    getCourseDebugInfo (txEnv 3 1100) 1 deactivated =
      Inr (name (courses deactivated 1), teacher (courses deactivated 1),
           startTime (courses deactivated 1), endTime (courses deactivated 1),
           False, False, block_timestamp (txEnv 3 1100), False)"
  proof (rule checkIn_ignores_isActive)
    show "isStudent deactivated (msg_sender (txEnv 3 1100))" by (simp add: env d)
    show "courseExists 1 deactivated = None" by (rule d)
    show "\<not> isFinalized (courses deactivated 1)" by (rule d)
    show "startTime (courses deactivated 1) \<le> block_timestamp (txEnv 3 1100)"
      by (simp add: env d)
    show "block_timestamp (txEnv 3 1100) \<le> endTime (courses deactivated 1)"
      by (simp add: env d)
    show "verifyInput (txEnv 3 1100) 1 [0] = Some 1" by (rule env)
    show "\<not> isActive (courses deactivated 1)" by (rule d)
  qed
  with d show ?thesis
    by (simp add: env)
qed

text \<open>The claim as stated fails: with an input proof the runtime rejects, the check-in of a
  registered student on the existing, unfinalized course 1 inside its window reverts.\<close>

theorem checkIn_rejected_proof_counterexample:
  "reachable deactivated \<and> isStudent deactivated 3 \<and> courseExists 1 deactivated = None \<and>
   \<not> isFinalized (courses deactivated 1) \<and> \<not> isActive (courses deactivated 1) \<and>
   startTime (courses deactivated 1) \<le> 1100 \<and> 1100 \<le> endTime (courses deactivated 1) \<and>
   checkIn (txEnv 3 1100) 1 1 [] deactivated = Inl InvalidInputProof"
proof -
  have "reachable deactivated"
    unfolding deactivated_def by (rule reachable_stateAfter)
  moreover have "isStudent deactivated 3 \<and> courseExists 1 deactivated = None \<and>
   \<not> isFinalized (courses deactivated 1) \<and> \<not> isActive (courses deactivated 1) \<and>
   startTime (courses deactivated 1) \<le> 1100 \<and> 1100 \<le> endTime (courses deactivated 1) \<and>
   checkIn (txEnv 3 1100) 1 1 [] deactivated = Inl InvalidInputProof"
    by (simp add: eval_defs deactivated_def)
  ultimately show ?thesis by (rule conjI)
qed

section \<open>The plaintext check-in flag\<close>

text \<open>
  Claim C10. On an existing course \<^verbatim>\<open>hasStudentCheckedIn\<close> returns true for every
  address, whether or not that address ever checked in: its second argument is not used.
\<close>

theorem hasStudentCheckedIn_always_true:
  assumes "courseExists cid s = None"
  shows "hasStudentCheckedIn cid student s = Inr True"
  using assms by (simp add: hasStudentCheckedIn_def)

text \<open>Nobody has checked in on course 1 of the example state; the answer is true for
  student 3 and for address 9, which is not a student.\<close>

theorem hasStudentCheckedIn_always_true_witness:
  "courseExists 1 afterSetup = None \<and>
   encryptedAttendance afterSetup 1 3 = Uninitialized \<and>
   hasStudentCheckedIn 1 3 afterSetup = Inr True \<and>
   \<not> isStudent afterSetup 9 \<and> hasStudentCheckedIn 1 9 afterSetup = Inr True"
proof -
  have a: "courseExists 1 afterSetup = None" "encryptedAttendance afterSetup 1 3 = Uninitialized"
    "\<not> isStudent afterSetup 9"
    by (simp_all add: eval_defs)
  from hasStudentCheckedIn_always_true [OF a(1), of 3]
    hasStudentCheckedIn_always_true [OF a(1), of 9] a
  show ?thesis by simp
qed

end
